theory Spec2Isabelle
  imports Complex_Main "HOL-Library.Sublist" "HOL-Library.Monad_Syntax"
begin

section \<open>Variable FK: the naming service\<close>

text \<open>
  The three module-level variables of \<^verbatim>\<open>variable_FK.py\<close> that \<^verbatim>\<open>name_object\<close>
  reads (\<^verbatim>\<open>system_name\<close>, \<^verbatim>\<open>side\<close>, \<^verbatim>\<open>suffix\<close>) are passed explicitly as a record.
  The field for \<^verbatim>\<open>suffix\<close> is called \<open>suffix_flag\<close>, since \<open>suffix\<close> is a constant of
  the list library.
\<close>

record naming_config =
  system_name :: string
  side :: string
  suffix_flag :: bool

definition module_config :: naming_config where
  "module_config = \<lparr>system_name = ''trunk_var_fk'', side = ''__'', suffix_flag = True\<rparr>"

text \<open>
  Python's \<^verbatim>\<open>str.replace(old, new)\<close>: the occurrences of \<open>old\<close> are found from the
  left and do not overlap; after a replacement the scan continues behind the replaced
  text. For the empty \<open>old\<close> Python inserts \<open>new\<close> before every character and at the end.
\<close>

fun str_replace :: "string \<Rightarrow> string \<Rightarrow> string \<Rightarrow> string" where
  "str_replace old new [] = (if old = [] then new else [])"
| "str_replace old new (c # cs) =
     (if old = [] then new @ c # str_replace old new cs
      else if prefix old (c # cs) then new @ str_replace old new (drop (length old) (c # cs))
      else c # str_replace old new cs)"

text \<open>
  \<^verbatim>\<open>name_object(name="__", node_name="__", include_system_name=True)\<close>: the four
  f-strings of the source, then \<^verbatim>\<open>name.replace("___", "")\<close>.
\<close>

definition name_object :: "naming_config \<Rightarrow> string \<Rightarrow> string \<Rightarrow> bool \<Rightarrow> string" where
  "name_object cfg name node_name include_system_name =
     str_replace ''___'' ''''
       (if suffix_flag cfg then
          (if include_system_name
           then name @ ''_'' @ system_name cfg @ ''_'' @ node_name @ ''_'' @ side cfg
           else name @ ''_'' @ node_name @ ''_'' @ side cfg)
        else
          (if include_system_name
           then side cfg @ ''_'' @ name @ ''_'' @ system_name cfg @ ''_'' @ node_name
           else side cfg @ ''_'' @ name @ ''_'' @ node_name))"

section \<open>Errors and numbers\<close>

text \<open>
  \<^verbatim>\<open>cmds.error(msg)\<close> raises Python's \<^verbatim>\<open>RuntimeError\<close> with the message; a float
  division by zero raises \<^verbatim>\<open>ZeroDivisionError\<close>. Every raise of the source is a
  value \<open>Inl\<close> of the model.

  Attribute values and Python floats are modelled as rationals: the arithmetic of the
  node network is the exact arithmetic, without the rounding of the host's doubles.
\<close>

datatype error = RuntimeError string | ZeroDivisionError

type_synonym vec3 = "rat \<times> rat \<times> rat"

definition truediv :: "rat \<Rightarrow> rat \<Rightarrow> error + rat" where
  "truediv a b = (if b = 0 then Inl ZeroDivisionError else Inr (a / b))"

section \<open>The host's utility nodes\<close>

text \<open>
  The nodes that \<^verbatim>\<open>create_node\<close> instantiates are evaluated by the host. Their
  functions are taken from the host's node reference; the \<^verbatim>\<open>operation\<close> attribute is
  the enum index that the source passes to \<^verbatim>\<open>setAttr\<close>.

  \<^verbatim>\<open>plusMinusAverage\<close>: 0 no operation (the first input), 1 sum (the default),
  2 subtract, 3 average, over the array \<^verbatim>\<open>input1D\<close>.
\<close>

definition plusMinusAverage :: "nat \<Rightarrow> rat list \<Rightarrow> rat" where
  "plusMinusAverage operation input1D =
     (case input1D of
        [] \<Rightarrow> 0
      | x # xs \<Rightarrow>
          if operation = 1 then x + sum_list xs
          else if operation = 2 then x - sum_list xs
          else if operation = 3 then (x + sum_list xs) / of_nat (length input1D)
          else x)"

text \<open>
  \<^verbatim>\<open>multiplyDivide\<close>, one channel: 0 no operation (\<^verbatim>\<open>input1\<close>), 1 multiply (the
  default), 2 divide, 3 power. The result of a division by zero and the power operation
  are not modelled: they are \<open>None\<close>.
\<close>

definition multiplyDivide :: "nat \<Rightarrow> rat \<Rightarrow> rat \<Rightarrow> rat option" where
  "multiplyDivide operation input1 input2 =
     (if operation = 0 then Some input1
      else if operation = 1 then Some (input1 * input2)
      else if operation = 2 then (if input2 = 0 then None else Some (input1 / input2))
      else None)"

text \<open>The three channels X, Y, Z of a \<^verbatim>\<open>multiplyDivide\<close> node.\<close>

definition multiplyDivide3 :: "nat \<Rightarrow> vec3 \<Rightarrow> vec3 \<Rightarrow> vec3 option" where
  "multiplyDivide3 operation input1 input2 =
     (case (input1, input2) of
        ((input1X, input1Y, input1Z), (input2X, input2Y, input2Z)) \<Rightarrow>
          do {
            outputX \<leftarrow> multiplyDivide operation input1X input2X;
            outputY \<leftarrow> multiplyDivide operation input1Y input2Y;
            outputZ \<leftarrow> multiplyDivide operation input1Z input2Z;
            Some (outputX, outputY, outputZ)
          })"

text \<open>
  \<^verbatim>\<open>condition\<close>: the comparison of \<^verbatim>\<open>firstTerm\<close> with \<^verbatim>\<open>secondTerm\<close> is
  0 equal, 1 not equal, 2 greater than, 3 greater or equal, 4 less than, 5 less or equal;
  the node forwards \<^verbatim>\<open>colorIfTrue\<close> when it holds, \<^verbatim>\<open>colorIfFalse\<close> otherwise.
\<close>

definition condition_test :: "nat \<Rightarrow> rat \<Rightarrow> rat \<Rightarrow> bool" where
  "condition_test operation firstTerm secondTerm =
     (if operation = 0 then firstTerm = secondTerm
      else if operation = 1 then firstTerm \<noteq> secondTerm
      else if operation = 2 then secondTerm < firstTerm
      else if operation = 3 then secondTerm \<le> firstTerm
      else if operation = 4 then firstTerm < secondTerm
      else if operation = 5 then firstTerm \<le> secondTerm
      else False)"

definition condition :: "nat \<Rightarrow> rat \<Rightarrow> rat \<Rightarrow> 'a \<Rightarrow> 'a \<Rightarrow> 'a" where
  "condition operation firstTerm secondTerm colorIfTrue colorIfFalse =
     (if condition_test operation firstTerm secondTerm then colorIfTrue else colorIfFalse)"

text \<open>
  \<^verbatim>\<open>remapValue\<close> with its default, linear value ramp: the input is clamped to
  \<^verbatim>\<open>[inputMin, inputMax]\<close>, normalised, and mapped linearly onto
  \<^verbatim>\<open>[outputMin, outputMax]\<close>. A degenerate input range is not modelled.
\<close>

definition remapValue :: "rat \<Rightarrow> rat \<Rightarrow> rat \<Rightarrow> rat \<Rightarrow> rat \<Rightarrow> rat option" where
  "remapValue inputValue inputMin inputMax outputMin outputMax =
     (if inputMax = inputMin then None
      else Some (outputMin
                  + (max inputMin (min inputMax inputValue) - inputMin) / (inputMax - inputMin)
                    * (outputMax - outputMin)))"

section \<open>Control placement\<close>

text \<open>
  A control curve with the attributes that \<^verbatim>\<open>build_variable_fk\<close> adds (\<^verbatim>\<open>position\<close>,
  \<^verbatim>\<open>falloff\<close>) and the curve's own \<^verbatim>\<open>rotate\<close> (called \<open>rotate_ctrl\<close>, since \<open>rotate\<close> is
  a list function). \<^verbatim>\<open>numOfJointsEffected\<close> is driven by a connection and is therefore
  a function of the control, below.
\<close>

record control =
  position :: rat
  falloff :: rat
  rotate_ctrl :: vec3

text \<open>
  The loop \<^verbatim>\<open>for value in range(1, number_of_controls+1)\<close>:
  \<^verbatim>\<open>current_value = value / (number_of_controls+1)\<close> is the default, and so the
  value, of \<^verbatim>\<open>position\<close>; \<^verbatim>\<open>falloff\<close> starts at 0.2 and a new circle is not
  rotated. The divisor is at least 2 whenever the body runs.
\<close>

definition build_variable_fk_controls :: "int \<Rightarrow> control list" where
  "build_variable_fk_controls number_of_controls =
     map (\<lambda>value.
            \<lparr>position = of_int value / of_int (number_of_controls + 1),
             falloff = 1 / 5,
             rotate_ctrl = (0, 0, 0)\<rparr>)
         [1 .. number_of_controls]"

text \<open>
  \<^verbatim>\<open>joints_effected_multi\<close> (a \<^verbatim>\<open>multiplyDivide\<close> left at multiply, \<^verbatim>\<open>input2X = 2.0\<close>)
  feeds \<^verbatim>\<open>joint_effected_remap\<close> (\<^verbatim>\<open>inputMin\<close>, \<^verbatim>\<open>inputMax\<close> left at 0 and 1,
  \<^verbatim>\<open>outputMin = 1\<close>, \<^verbatim>\<open>outputMax = len(selection)\<close>), whose \<^verbatim>\<open>outValue\<close> drives
  \<^verbatim>\<open>numOfJointsEffected\<close>.
\<close>

definition joints_effected_multi :: "control \<Rightarrow> rat option" where
  "joints_effected_multi c = multiplyDivide 1 (falloff c) 2"

definition joint_effected_remap :: "control \<Rightarrow> nat \<Rightarrow> rat option" where
  "joint_effected_remap c len_selection =
     do {
       outputX \<leftarrow> joints_effected_multi c;
       remapValue outputX 0 1 1 (of_nat len_selection)
     }"

definition numOfJointsEffected :: "control \<Rightarrow> nat \<Rightarrow> rat option" where
  "numOfJointsEffected c len_selection = joint_effected_remap c len_selection"

section \<open>Joint position sampling\<close>

text \<open>
  The loop over the selection reads \<^verbatim>\<open>parameterV\<close> of the closest-point node for each
  joint (the readings are the list, in selection order) and divides it by
  \<^verbatim>\<open>max_v_range\<close>. The division is Python's and raises on a zero divisor, which ends
  the loop and the build.
\<close>

fun build_variable_fk_joint_positions :: "rat list \<Rightarrow> rat \<Rightarrow> error + rat list" where
  "build_variable_fk_joint_positions [] max_v_range = Inr []"
| "build_variable_fk_joint_positions (current_joint_v_position # rest) max_v_range =
     (case truediv current_joint_v_position max_v_range of
        Inl e \<Rightarrow> Inl e
      | Inr normalized_joint_v_position \<Rightarrow>
          (case build_variable_fk_joint_positions rest max_v_range of
             Inl e \<Rightarrow> Inl e
           | Inr positions \<Rightarrow> Inr (normalized_joint_v_position # positions)))"

section \<open>The falloff network of one joint and one control\<close>

text \<open>
  The names of the network's nodes: \<^verbatim>\<open>starter_node_name\<close> of the inner loop, over
  the name of the joint's offset group for the control. \<^verbatim>\<open>create_node\<close> returns the
  name the host gave the node, here the name that was asked for.
\<close>

definition starter_node_name :: "naming_config \<Rightarrow> string \<Rightarrow> string \<Rightarrow> string" where
  "starter_node_name cfg joint_offset_group node_name =
     name_object cfg joint_offset_group node_name False"

text \<open>
  The channel of \<^verbatim>\<open>rotation_multiplier\<close> that one pass of the loop
  \<^verbatim>\<open>for falloff_position in [falloff_rear_position, falloff_front_position]\<close> wires:
  \<^verbatim>\<open>falloff_position in falloff_rear_position\<close> is containment of one node name in the
  other.
\<close>

definition multi_attr :: "string \<Rightarrow> string \<Rightarrow> string" where
  "multi_attr falloff_position falloff_rear_position =
     (if sublist falloff_position falloff_rear_position then ''X'' else ''Y'')"

text \<open>
  The connected inputs of a node, by attribute name, with the value that arrives.
  \<^verbatim>\<open>connectAttr\<close> onto an input that has a connection already is refused by the host;
  an input without a connection holds its default.
\<close>

definition connectAttr :: "rat \<Rightarrow> string \<Rightarrow> (string \<rightharpoonup> rat) \<Rightarrow> (string \<rightharpoonup> rat) option" where
  "connectAttr source destination inputs =
     (case inputs destination of
        Some _ \<Rightarrow> None
      | None \<Rightarrow> Some (inputs(destination \<mapsto> source)))"

definition input_value :: "(string \<rightharpoonup> rat) \<Rightarrow> string \<Rightarrow> rat \<Rightarrow> rat" where
  "input_value inputs attribute default_value =
     (case inputs attribute of Some v \<Rightarrow> v | None \<Rightarrow> default_value)"

text \<open>
  One pass of the loop: \<^verbatim>\<open>jnt_pos_minus_falloff_pos\<close> and
  \<^verbatim>\<open>ctrl_pos_minus_falloff_pos\<close> subtract (\<^verbatim>\<open>operation = 2\<close>) the falloff position
  (\<^verbatim>\<open>output1D\<close> of the node \<^verbatim>\<open>falloff_position\<close>) from the joint's and from the
  control's position, and drive \<^verbatim>\<open>input1\<close> and \<^verbatim>\<open>input2\<close> of the chosen channel.
\<close>

definition falloff_side ::
  "control \<Rightarrow> rat \<Rightarrow> string \<Rightarrow> string \<Rightarrow> rat \<Rightarrow> (string \<rightharpoonup> rat) \<Rightarrow> (string \<rightharpoonup> rat) option" where
  "falloff_side c jointPosition falloff_rear_position falloff_position output1D inputs =
     (let attr = multi_attr falloff_position falloff_rear_position;
          jnt_pos_minus_falloff_pos = plusMinusAverage 2 [jointPosition, output1D];
          ctrl_pos_minus_falloff_pos = plusMinusAverage 2 [position c, output1D]
      in do {
           inputs' \<leftarrow> connectAttr jnt_pos_minus_falloff_pos (''input1'' @ attr) inputs;
           connectAttr ctrl_pos_minus_falloff_pos (''input2'' @ attr) inputs'
         })"

text \<open>
  \<^verbatim>\<open>falloff_rear_position\<close> subtracts the falloff from the control's position,
  \<^verbatim>\<open>falloff_front_position\<close> is left at sum. \<^verbatim>\<open>rotation_multiplier\<close> divides
  (\<^verbatim>\<open>operation = 2\<close>) per channel; the defaults of its inputs are 0 for \<^verbatim>\<open>input1\<close> and
  1 for \<^verbatim>\<open>input2\<close>. The result is the pair of \<^verbatim>\<open>outputX\<close> and \<^verbatim>\<open>outputY\<close>.
\<close>

definition rotation_multiplier ::
  "naming_config \<Rightarrow> string \<Rightarrow> control \<Rightarrow> rat \<Rightarrow> (rat \<times> rat) option" where
  "rotation_multiplier cfg joint_offset_group c jointPosition =
     (let falloff_rear_position =
            starter_node_name cfg joint_offset_group ''ctrlpos_minus_falloff_pma'';
          rear_output1D = plusMinusAverage 2 [position c, falloff c];
          falloff_front_position =
            starter_node_name cfg joint_offset_group ''ctrlpos_plus_falloff_pma'';
          front_output1D = plusMinusAverage 1 [position c, falloff c]
      in do {
           inputs1 \<leftarrow> falloff_side c jointPosition falloff_rear_position
                        falloff_rear_position rear_output1D Map.empty;
           inputs2 \<leftarrow> falloff_side c jointPosition falloff_rear_position
                        falloff_front_position front_output1D inputs1;
           outputX \<leftarrow> multiplyDivide 2 (input_value inputs2 ''input1X'' 0)
                        (input_value inputs2 ''input2X'' 1);
           outputY \<leftarrow> multiplyDivide 2 (input_value inputs2 ''input1Y'' 0)
                        (input_value inputs2 ''input2Y'' 1);
           Some (outputX, outputY)
         })"

text \<open>
  \<^verbatim>\<open>side_switch_condition\<close>: \<^verbatim>\<open>firstTerm\<close> is the control's position, \<^verbatim>\<open>secondTerm\<close>
  the joint's, \<^verbatim>\<open>operation = 3\<close>; \<^verbatim>\<open>colorIfTrueR\<close> is \<^verbatim>\<open>outputX\<close> and
  \<^verbatim>\<open>colorIfFalseR\<close> is \<^verbatim>\<open>outputY\<close>. The value is \<^verbatim>\<open>outColorR\<close>.
\<close>

definition side_switch_condition ::
  "naming_config \<Rightarrow> string \<Rightarrow> control \<Rightarrow> rat \<Rightarrow> rat option" where
  "side_switch_condition cfg joint_offset_group c jointPosition =
     do {
       (outputX, outputY) \<leftarrow> rotation_multiplier cfg joint_offset_group c jointPosition;
       Some (condition 3 (position c) jointPosition outputX outputY)
     }"

text \<open>\<^verbatim>\<open>control_rotation_by_rot_multi\<close>: the weight on all three channels, times the rotation.\<close>

definition control_rotation_by_rot_multi ::
  "naming_config \<Rightarrow> string \<Rightarrow> control \<Rightarrow> rat \<Rightarrow> vec3 option" where
  "control_rotation_by_rot_multi cfg joint_offset_group c jointPosition =
     do {
       outColorR \<leftarrow> side_switch_condition cfg joint_offset_group c jointPosition;
       multiplyDivide3 1 (outColorR, outColorR, outColorR) (rotate_ctrl c)
     }"

text \<open>\<^verbatim>\<open>number_of_joints_division_multi\<close>: 1 divided by \<^verbatim>\<open>numOfJointsEffected\<close>.\<close>

definition number_of_joints_division_multi :: "control \<Rightarrow> nat \<Rightarrow> rat option" where
  "number_of_joints_division_multi c len_selection =
     do {
       input2X \<leftarrow> numOfJointsEffected c len_selection;
       multiplyDivide 2 1 input2X
     }"

definition num_jnts_times_ctrl_rot_multi ::
  "naming_config \<Rightarrow> string \<Rightarrow> control \<Rightarrow> nat \<Rightarrow> rat \<Rightarrow> vec3 option" where
  "num_jnts_times_ctrl_rot_multi cfg joint_offset_group c len_selection jointPosition =
     do {
       outputX \<leftarrow> number_of_joints_division_multi c len_selection;
       input2 \<leftarrow> control_rotation_by_rot_multi cfg joint_offset_group c jointPosition;
       multiplyDivide3 1 (outputX, outputX, outputX) input2
     }"

text \<open>\<^verbatim>\<open>final_multiplier_multi\<close>: \<^verbatim>\<open>input2X\<close>, \<^verbatim>\<open>input2Y\<close>, \<^verbatim>\<open>input2Z\<close> are set to 6.\<close>

definition final_multiplier_multi ::
  "naming_config \<Rightarrow> string \<Rightarrow> control \<Rightarrow> nat \<Rightarrow> rat \<Rightarrow> vec3 option" where
  "final_multiplier_multi cfg joint_offset_group c len_selection jointPosition =
     do {
       input1 \<leftarrow> num_jnts_times_ctrl_rot_multi cfg joint_offset_group c len_selection jointPosition;
       multiplyDivide3 1 input1 (6, 6, 6)
     }"

text \<open>
  \<^verbatim>\<open>final_condition\<close>: \<^verbatim>\<open>firstTerm\<close> is the weight, \<^verbatim>\<open>secondTerm\<close> is left at 0,
  \<^verbatim>\<open>operation = 2\<close>, \<^verbatim>\<open>colorIfFalse\<close> is set to zero. Its \<^verbatim>\<open>outColor\<close> is connected to
  \<^verbatim>\<open>rotate\<close> of the joint's offset group for this control.
\<close>

definition final_condition ::
  "naming_config \<Rightarrow> string \<Rightarrow> control \<Rightarrow> nat \<Rightarrow> rat \<Rightarrow> vec3 option" where
  "final_condition cfg joint_offset_group c len_selection jointPosition =
     do {
       colorIfTrue \<leftarrow> final_multiplier_multi cfg joint_offset_group c len_selection jointPosition;
       firstTerm \<leftarrow> side_switch_condition cfg joint_offset_group c jointPosition;
       Some (condition 2 firstTerm 0 colorIfTrue (0, 0, 0))
     }"

text \<open>
  The share as the specification words it, for comparison with \<open>final_multiplier_multi\<close>:
  \<^verbatim>\<open>perControlShare = weightedRotation * (1 / control.numOfJointsEffected) * 2\<close>.
\<close>

definition spec_perControlShare :: "rat \<Rightarrow> vec3 \<Rightarrow> rat \<Rightarrow> vec3" where
  "spec_perControlShare sideSelect rotation num =
     (case rotation of
        (rx, ry, rz) \<Rightarrow>
          (sideSelect * rx * (1 / num) * 2,
           sideSelect * ry * (1 / num) * 2,
           sideSelect * rz * (1 / num) * 2))"

section \<open>The selection guards of the build\<close>

text \<open>
  The scene as far as the guards read it: the type of every node, the selection, and the
  journal of the commands that changed the scene so far.
\<close>

datatype host_command =
    Curve string
  | Move rat rat rat string
  | Duplicate string
  | Loft string string string
  | Delete "string list"
  | Hide string

record scene =
  node_types :: "(string \<times> string) list"
  selected :: "string list"
  journal :: "host_command list"

definition nodeType :: "scene \<Rightarrow> string \<Rightarrow> string option" where
  "nodeType s node = map_of (node_types s) node"

text \<open>\<^verbatim>\<open>cmds.ls(selection=True, type="joint")\<close>: the selected nodes that are joints.\<close>

definition ls_selection_joint :: "scene \<Rightarrow> string list" where
  "ls_selection_joint s = filter (\<lambda>node. nodeType s node = Some ''joint'') (selected s)"

definition run :: "host_command \<Rightarrow> scene \<Rightarrow> scene" where
  "run cmd s = s\<lparr>journal := journal s @ [cmd]\<rparr>"

text \<open>
  \<^verbatim>\<open>create_nurbs_surface(joints)\<close>: two guards, then the curve, its duplicate, the loft
  and the deletion of both curves. The duplicate's name is the host's.
\<close>

definition create_nurbs_surface ::
  "naming_config \<Rightarrow> string list \<Rightarrow> scene \<Rightarrow> (error + string) \<times> scene" where
  "create_nurbs_surface cfg joints s =
     (if length joints < 3
      then (Inl (RuntimeError ''Please select at least 3 input joints''), s)
      else if list_ex (\<lambda>jnt. nodeType s jnt \<noteq> Some ''joint'') joints
      then (Inl (RuntimeError ''Select only joints''), s)
      else
        let crv = ''temp_variable_fk_curve'';
            s1 = run (Curve crv) s;
            s2 = run (Move 5 0 0 crv) s1;
            duplicated_curve = crv @ ''1'';
            s3 = run (Duplicate crv) s2;
            s4 = run (Move (- 5) 0 0 duplicated_curve) s3;
            nurbs_surface = name_object cfg ''surface'' ''__'' True;
            s5 = run (Loft crv duplicated_curve nurbs_surface) s4;
            s6 = run (Delete [duplicated_curve, crv]) s5
        in (Inr nurbs_surface, s6))"

text \<open>
  \<^verbatim>\<open>build_variable_fk\<close> up to \<^verbatim>\<open>cmds.hide(nurbs_surface)\<close>: the selection query, its
  guard, and the call of \<^verbatim>\<open>create_nurbs_surface\<close>. The rest of the build only adds
  commands to the journal.
\<close>

definition build_variable_fk_surface ::
  "naming_config \<Rightarrow> scene \<Rightarrow> (error + string) \<times> scene" where
  "build_variable_fk_surface cfg s =
     (let selection = ls_selection_joint s
      in if selection = []
         then (Inl (RuntimeError ''Nothing selected''), s)
         else (case create_nurbs_surface cfg selection s of
                 (Inl e, s') \<Rightarrow> (Inl e, s')
               | (Inr nurbs_surface, s') \<Rightarrow> (Inr nurbs_surface, run (Hide nurbs_surface) s')))"

section \<open>Properties of the naming service\<close>

lemma str_replace_us_head:
  "str_replace ''___'' '''' t = CHR ''_'' # u \<Longrightarrow> \<exists>t'. t = CHR ''_'' # t'"
  by (cases t) (auto split: if_splits)

lemma prefix_us3:
  "prefix ''___'' t \<longleftrightarrow> (\<exists>t'. t = CHR ''_'' # CHR ''_'' # CHR ''_'' # t')"
  by (auto simp: prefix_def)

lemma str_replace3_hit:
  "str_replace ''___'' '''' (CHR ''_'' # CHR ''_'' # CHR ''_'' # t) = str_replace ''___'' '''' t"
  by simp

lemma str_replace3_miss:
  assumes "\<not> prefix ''___'' (c # cs)"
  shows "str_replace ''___'' '''' (c # cs) = c # str_replace ''___'' '''' cs"
proof -
  have ne: "''___'' \<noteq> ''''" by simp
  show ?thesis
    by (subst str_replace.simps(2)) (simp only: assms ne if_False)
qed

lemma str_replace_us_head2:
  assumes "str_replace ''___'' '''' t = CHR ''_'' # CHR ''_'' # u"
  shows "\<exists>t'. t = CHR ''_'' # CHR ''_'' # t'"
proof (cases t)
  case Nil
  with assms show ?thesis by simp
next
  case (Cons c cs)
  show ?thesis
  proof (cases "prefix ''___'' (c # cs)")
    case True
    then obtain t' where "c # cs = CHR ''_'' # CHR ''_'' # CHR ''_'' # t'"
      unfolding prefix_us3 by blast
    then show ?thesis using Cons by blast
  next
    case False
    from str_replace3_miss [OF False] assms Cons
    have "c # str_replace ''___'' '''' cs = CHR ''_'' # CHR ''_'' # u"
      by (simp only:)
    then have "c = CHR ''_''" and "str_replace ''___'' '''' cs = CHR ''_'' # u" by blast+
    then show ?thesis using Cons str_replace_us_head by blast
  qed
qed

text \<open>
  What \<^verbatim>\<open>replace("___", "")\<close> leaves has no three underscores in a row: an underscore
  that survives is copied from a position where no occurrence starts, and the text behind
  it starts with two underscores only if the input did.
\<close>

lemma str_replace_no_triple: "\<not> sublist ''___'' (str_replace ''___'' '''' s)"
proof (induction s rule: length_induct)
  case (1 s)
  show ?case
  proof (cases s)
    case Nil
    then show ?thesis by simp
  next
    case (Cons c cs)
    show ?thesis
    proof (cases "prefix ''___'' (c # cs)")
      case True
      then obtain t' where t': "s = CHR ''_'' # CHR ''_'' # CHR ''_'' # t'"
        unfolding prefix_us3 using Cons by blast
      then have "length t' < length s" by simp
      with 1 have "\<not> sublist ''___'' (str_replace ''___'' '''' t')" by blast
      then show ?thesis unfolding t' str_replace3_hit .
    next
      case False
      have eq: "str_replace ''___'' '''' s = c # str_replace ''___'' '''' cs"
        unfolding Cons by (rule str_replace3_miss [OF False])
      have "length cs < length s" using Cons by simp
      with 1 have ih: "\<not> sublist ''___'' (str_replace ''___'' '''' cs)" by blast
      have "\<not> prefix ''___'' (c # str_replace ''___'' '''' cs)"
      proof
        assume p: "prefix ''___'' (c # str_replace ''___'' '''' cs)"
        then obtain u where c: "c = CHR ''_''"
          and "str_replace ''___'' '''' cs = CHR ''_'' # CHR ''_'' # u"
          unfolding prefix_us3 by blast
        then obtain t' where "cs = CHR ''_'' # CHR ''_'' # t'"
          using str_replace_us_head2 by blast
        with c have "prefix ''___'' (c # cs)" unfolding prefix_us3 by blast
        with False show False ..
      qed
      with ih show ?thesis unfolding eq sublist_Cons_right by blast
    qed
  qed
qed

text \<open>
  C7, as stated: the naming function is deterministic and no returned name contains a
  doubled separator. The second half fails: with the side token \<^verbatim>\<open>l\<close> and an empty
  node-role field the two separators around the empty field meet, and two underscores
  are not a match of \<^verbatim>\<open>___\<close>. Under the module's own configuration a run of five
  underscores loses three and keeps two.
\<close>

theorem name_object_doubled_separator:
  "name_object (module_config\<lparr>side := ''l''\<rparr>) ''a'' '''' True = ''a_trunk_var_fk__l''
   \<and> sublist ''__'' (name_object (module_config\<lparr>side := ''l''\<rparr>) ''a'' '''' True)
   \<and> name_object module_config ''a'' ''_'' True = ''a_trunk_var_fk__''
   \<and> sublist ''__'' (name_object module_config ''a'' ''_'' True)"
  by (simp add: name_object_def module_config_def sublist_Cons_right)

text \<open>
  C7, amended: for every configuration and all arguments, two calls with identical
  arguments return identical strings, and no returned name contains three consecutive
  underscores (a run of two can remain).
\<close>

theorem name_object_deterministic_no_triple:
  assumes "cfg' = cfg" and "name' = name" and "node_name' = node_name"
    and "include_system_name' = include_system_name"
  shows "name_object cfg' name' node_name' include_system_name'
           = name_object cfg name node_name include_system_name
         \<and> \<not> sublist ''___'' (name_object cfg name node_name include_system_name)"
  using assms by (simp add: name_object_def str_replace_no_triple del: str_replace.simps)

theorem name_object_deterministic_no_triple_witness:
  "name_object module_config ''surface'' ''__'' True
     = name_object module_config ''surface'' ''__'' True
   \<and> \<not> sublist ''___'' (name_object module_config ''surface'' ''__'' True)"
  using name_object_deterministic_no_triple
    [of module_config module_config "''surface''" "''surface''" "''__''" "''__''" True True]
  by simp

text \<open>
  C9: the naming function removes every non-overlapping occurrence of three consecutive
  underscores from the composed string, wherever it stands: three underscores inside the
  caller's base name or inside the node-role tag are deleted from the returned name, and
  of a longer run the leftmost groups of three go.
\<close>

theorem name_object_deletes_field_characters:
  "name_object module_config ''a___b'' ''x'' True = ''ab_trunk_var_fk_x''
   \<and> name_object module_config ''a'' ''x___y'' False = ''a_xy''
   \<and> name_object module_config ''a____b'' ''x'' False = ''a_b_x''
   \<and> name_object module_config ''a______b'' ''x'' False = ''ab_x''"
  by (simp add: name_object_def module_config_def)

section \<open>Control placement: the spacing of the positions\<close>

lemma positions_map:
  "map position (build_variable_fk_controls N) = map (\<lambda>value. of_int value / of_int (N + 1)) [1 .. N]"
  by (simp add: build_variable_fk_controls_def comp_def)

lemma positions_strict: 
  assumes "1 \<le> N"
  shows "sorted_wrt (<) (map (\<lambda>value. (of_int value :: rat) / of_int (N + 1)) [1 .. N])"
proof -
  have pos: "(0::rat) < of_int (N + 1)" using assms by simp
  have "sorted_wrt (\<lambda>x y. (of_int x :: rat) / of_int (N + 1) < of_int y / of_int (N + 1)) [1 .. N]"
    by (rule sorted_wrt_mono_rel [OF _ sorted_wrt_upto]) (use pos in \<open>simp add: divide_strict_right_mono\<close>)
  then show ?thesis by (simp add: sorted_wrt_map)
qed

lemma positions_inside:
  assumes "1 \<le> N"
  shows "list_all (\<lambda>p. 0 < p \<and> p < 1) (map (\<lambda>value. (of_int value :: rat) / of_int (N + 1)) [1 .. N])"
proof -
  have pos: "(0::rat) < of_int (N + 1)" using assms by simp
  have "0 < (of_int v :: rat) / of_int (N + 1) \<and> (of_int v :: rat) / of_int (N + 1) < 1"
    if "v \<in> set [1 .. N]" for v
  proof -
    from that have v: "1 \<le> v" "v \<le> N" by simp_all
    then have "(0::rat) < of_int v" by simp
    moreover have "(of_int v :: rat) < of_int (N + 1)" using v by simp
    ultimately show ?thesis using pos by simp
  qed
  then show ?thesis by (simp add: list_all_iff)
qed

text \<open>
  C8: for every number N of controls, N at least 1, the build creates N controls; the
  position of the k-th one (k from 1 to N, in creation order) is exactly k / (N + 1); the
  positions are strictly increasing and each lies strictly between 0 and 1.
\<close>

theorem control_positions_spacing:
  assumes "1 \<le> N"
  shows "length (build_variable_fk_controls N) = nat N
    \<and> (\<forall>k. 1 \<le> k \<and> k \<le> N \<longrightarrow>
          position (build_variable_fk_controls N ! nat (k - 1)) = of_int k / of_int (N + 1))
    \<and> sorted_wrt (<) (map position (build_variable_fk_controls N))
    \<and> list_all (\<lambda>p. 0 < p \<and> p < 1) (map position (build_variable_fk_controls N))"
proof -
  have len: "length (build_variable_fk_controls N) = nat N"
    using assms by (simp add: build_variable_fk_controls_def)
  have nth: "position (build_variable_fk_controls N ! nat (k - 1)) = of_int k / of_int (N + 1)"
    if "1 \<le> k \<and> k \<le> N" for k
  proof -
    have "nat (k - 1) < length [1 .. N]" using that by simp
    moreover have "[1 .. N] ! nat (k - 1) = k" using that by simp
    ultimately show ?thesis by (simp add: build_variable_fk_controls_def)
  qed
  show ?thesis
    using len nth positions_strict [OF assms] positions_inside [OF assms]
    unfolding positions_map by blast
qed

theorem control_positions_spacing_witness:
  "length (build_variable_fk_controls 3) = 3
   \<and> map position (build_variable_fk_controls 3) = [1 / 4, 1 / 2, 3 / 4]
   \<and> sorted_wrt (<) (map position (build_variable_fk_controls 3))
   \<and> list_all (\<lambda>p. 0 < p \<and> p < 1) (map position (build_variable_fk_controls 3))"
  using control_positions_spacing [of 3]
  by (simp add: build_variable_fk_controls_def upto.simps)

section \<open>The number of joints a control affects\<close>

lemma numOfJointsEffected_eq:
  "numOfJointsEffected c N = Some (1 + max 0 (min 1 (falloff c * 2)) * (of_nat N - 1))"
  by (simp add: numOfJointsEffected_def joint_effected_remap_def joints_effected_multi_def
      multiplyDivide_def remapValue_def)

lemma numOfJointsEffected_ge_1:
  assumes "1 \<le> N"
  shows "(1::rat) \<le> 1 + max 0 (min 1 (falloff c * 2)) * (of_nat N - 1)"
proof -
  have "(0::rat) \<le> of_nat N - 1" using assms by simp
  moreover have "(0::rat) \<le> max 0 (min 1 (falloff c * 2))" by simp
  ultimately have "(0::rat) \<le> max 0 (min 1 (falloff c * 2)) * (of_nat N - 1)"
    by (rule mult_nonneg_nonneg [rotated])
  then show ?thesis by simp
qed

text \<open>
  C2, as stated: \<^verbatim>\<open>numOfJointsEffected\<close> is the remap of the doubled falloff onto
  [1, N], is monotone in the falloff, is exactly 1 at falloff 0.1 and is N at falloff 0.5.
  The value at 0.1 fails: the doubled falloff is 0.2, not 0, and over three joints the
  remap gives 7/5.
\<close>

theorem numOfJointsEffected_at_min_falloff:
  "numOfJointsEffected \<lparr>position = 1 / 4, falloff = 1 / 10, rotate_ctrl = (0, 0, 0)\<rparr> 3 = Some (7 / 5)
   \<and> (7 / 5 :: rat) \<noteq> 1"
  by (simp add: numOfJointsEffected_eq)

text \<open>
  C2, amended: over a selection of N joints, N at least 1, \<^verbatim>\<open>numOfJointsEffected\<close> is
  1 + clamp(2 * falloff, 0, 1) * (N - 1); it is monotonically non-decreasing in the
  falloff; at falloff 0.5 it is N, and at falloff 0.1 it is 1 + (N - 1) / 5.
\<close>

theorem numOfJointsEffected_falloff_mapping:
  assumes "1 \<le> N" and "falloff c \<le> falloff c'"
  shows "\<exists>a b. numOfJointsEffected c N = Some a \<and> numOfJointsEffected c' N = Some b
           \<and> a \<le> b
           \<and> a = 1 + max 0 (min 1 (2 * falloff c)) * (of_nat N - 1)
           \<and> (falloff c = 1 / 10 \<longrightarrow> a = 1 + (of_nat N - 1) / 5)
           \<and> (falloff c' = 1 / 2 \<longrightarrow> b = of_nat N)"
proof -
  let ?t = "\<lambda>c. max 0 (min 1 (falloff c * 2))"
  have n: "(0::rat) \<le> of_nat N - 1" using assms(1) by simp
  have "?t c \<le> ?t c'" using assms(2) by (simp add: max_def min_def)
  then have mono: "1 + ?t c * (of_nat N - 1) \<le> 1 + ?t c' * (of_nat N - 1)"
    using n by (simp add: mult_right_mono)
  have lo: "falloff c = 1 / 10 \<longrightarrow> 1 + ?t c * (of_nat N - 1) = 1 + (of_nat N - 1) / 5"
    by simp
  have hi: "falloff c' = 1 / 2 \<longrightarrow> 1 + ?t c' * (of_nat N - 1) = of_nat N"
    by simp
  show ?thesis
    unfolding numOfJointsEffected_eq using mono lo hi by (simp add: mult.commute)
qed

theorem numOfJointsEffected_falloff_mapping_witness:
  "numOfJointsEffected \<lparr>position = 1 / 4, falloff = 1 / 10, rotate_ctrl = (0, 0, 0)\<rparr> 3 = Some (7 / 5)
   \<and> numOfJointsEffected \<lparr>position = 1 / 4, falloff = 1 / 2, rotate_ctrl = (0, 0, 0)\<rparr> 3 = Some 3
   \<and> (7 / 5 :: rat) \<le> 3"
  using numOfJointsEffected_falloff_mapping
    [of 3 "\<lparr>position = 1 / 4, falloff = 1 / 10, rotate_ctrl = (0, 0, 0)\<rparr>"
          "\<lparr>position = 1 / 4, falloff = 1 / 2, rotate_ctrl = (0, 0, 0)\<rparr>"]
  by (simp add: numOfJointsEffected_eq)

section \<open>The channels of the rotation multiplier\<close>

text \<open>
  \<^verbatim>\<open>replace("___", "")\<close> works on the two sides of a character that is not an
  underscore independently: no occurrence contains that character.
\<close>

lemma str_replace3_append_Cons:
  assumes "c \<noteq> CHR ''_''"
  shows "str_replace ''___'' '''' (a @ c # b)
       = str_replace ''___'' '''' a @ c # str_replace ''___'' '''' b"
proof (induction a rule: length_induct)
  case (1 a)
  show ?case
  proof (cases a)
    case Nil
    have "\<not> prefix ''___'' (c # b)" using assms unfolding prefix_us3 by blast
    then have miss: "str_replace ''___'' '''' (c # b) = c # str_replace ''___'' '''' b"
      by (rule str_replace3_miss)
    have e: "str_replace ''___'' '''' '''' = ''''" by simp
    show ?thesis unfolding Nil append_Nil miss e ..
  next
    case (Cons x a')
    show ?thesis
    proof (cases "prefix ''___'' (x # a')")
      case True
      then obtain t where t: "a = CHR ''_'' # CHR ''_'' # CHR ''_'' # t"
        unfolding prefix_us3 using Cons by blast
      then have "length t < length a" by simp
      with 1 have "str_replace ''___'' '''' (t @ c # b)
          = str_replace ''___'' '''' t @ c # str_replace ''___'' '''' b" by blast
      then show ?thesis unfolding t append_Cons str_replace3_hit .
    next
      case False
      have "\<not> prefix ''___'' (x # (a' @ c # b))"
      proof
        assume "prefix ''___'' (x # (a' @ c # b))"
        then obtain t where t: "x # (a' @ c # b) = CHR ''_'' # CHR ''_'' # CHR ''_'' # t"
          unfolding prefix_us3 by blast
        then have "prefix ''___'' (x # a')"
          using assms unfolding prefix_us3
          by (cases a'; cases "tl a'") (auto simp: Cons_eq_append_conv)
        with False show False ..
      qed
      then have l: "str_replace ''___'' '''' (a @ c # b) = x # str_replace ''___'' '''' (a' @ c # b)"
        unfolding Cons append_Cons by (rule str_replace3_miss)
      have r: "str_replace ''___'' '''' a = x # str_replace ''___'' '''' a'"
        unfolding Cons by (rule str_replace3_miss [OF False])
      have "length a' < length a" using Cons by simp
      with 1 have "str_replace ''___'' '''' (a' @ c # b)
          = str_replace ''___'' '''' a' @ c # str_replace ''___'' '''' b" by blast
      then show ?thesis unfolding l r by simp
    qed
  qed
qed

lemma starter_node_name_rear:
  "\<exists>R S. starter_node_name cfg jog ''ctrlpos_minus_falloff_pma'' = R @ ''ctrlpos_minus_falloff_pma'' @ S
       \<and> starter_node_name cfg jog ''ctrlpos_plus_falloff_pma'' = R @ ''ctrlpos_plus_falloff_pma'' @ S"
proof -
  have split: "str_replace ''___'' '''' (P @ CHR ''c'' # w @ CHR ''a'' # Q)
      = str_replace ''___'' '''' P @ CHR ''c'' # str_replace ''___'' '''' w @ CHR ''a'' # str_replace ''___'' '''' Q"
    for P w Q
    by (simp add: str_replace3_append_Cons del: str_replace.simps)
  have m: "str_replace ''___'' '''' ''trlpos_minus_falloff_pm'' = ''trlpos_minus_falloff_pm''" by simp
  have p: "str_replace ''___'' '''' ''trlpos_plus_falloff_pm'' = ''trlpos_plus_falloff_pm''" by simp
  show ?thesis
  proof (cases "suffix_flag cfg")
    case True
    have "starter_node_name cfg jog ''ctrlpos_minus_falloff_pma''
        = str_replace ''___'' '''' ((jog @ ''_'') @ CHR ''c'' # ''trlpos_minus_falloff_pm'' @ CHR ''a'' # (''_'' @ side cfg))"
      using True by (simp add: starter_node_name_def name_object_def del: str_replace.simps)
    moreover have "starter_node_name cfg jog ''ctrlpos_plus_falloff_pma''
        = str_replace ''___'' '''' ((jog @ ''_'') @ CHR ''c'' # ''trlpos_plus_falloff_pm'' @ CHR ''a'' # (''_'' @ side cfg))"
      using True by (simp add: starter_node_name_def name_object_def del: str_replace.simps)
    ultimately show ?thesis unfolding split m p
      by (intro exI [of _ "str_replace ''___'' '''' (jog @ ''_'')"]
               exI [of _ "str_replace ''___'' '''' (''_'' @ side cfg)"]) simp
  next
    case False
    have "starter_node_name cfg jog ''ctrlpos_minus_falloff_pma''
        = str_replace ''___'' '''' ((side cfg @ ''_'' @ jog @ ''_'') @ CHR ''c'' # ''trlpos_minus_falloff_pm'' @ CHR ''a'' # '''')"
      using False by (simp add: starter_node_name_def name_object_def del: str_replace.simps)
    moreover have "starter_node_name cfg jog ''ctrlpos_plus_falloff_pma''
        = str_replace ''___'' '''' ((side cfg @ ''_'' @ jog @ ''_'') @ CHR ''c'' # ''trlpos_plus_falloff_pm'' @ CHR ''a'' # '''')"
      using False by (simp add: starter_node_name_def name_object_def del: str_replace.simps)
    ultimately show ?thesis unfolding split m p
      by (intro exI [of _ "str_replace ''___'' '''' (side cfg @ ''_'' @ jog @ ''_'')"]
               exI [of _ "''''"]) simp
  qed
qed

lemma front_not_in_rear_aux:
  "\<not> sublist (R @ ''ctrlpos_plus_falloff_pma'' @ S) (R @ ''ctrlpos_minus_falloff_pma'' @ S)"
proof
  assume "sublist (R @ ''ctrlpos_plus_falloff_pma'' @ S) (R @ ''ctrlpos_minus_falloff_pma'' @ S)"
  then obtain ps ss where eq: "R @ ''ctrlpos_minus_falloff_pma'' @ S = ps @ (R @ ''ctrlpos_plus_falloff_pma'' @ S) @ ss"
    unfolding sublist_def by blast
  then have "length (R @ ''ctrlpos_minus_falloff_pma'' @ S) = length (ps @ (R @ ''ctrlpos_plus_falloff_pma'' @ S) @ ss)"
    by (rule arg_cong)
  then have len: "length ps + length ss = 1" by simp
  show False
  proof (cases ps)
    case Nil
    with len obtain z where "ss = [z]" by (cases ss) auto
    with eq Nil show False by simp
  next
    case (Cons z ps')
    with len have ps: "ps = [z]" and ss: "ss = []" by simp_all
    from eq have "rev (R @ ''ctrlpos_minus_falloff_pma'' @ S) = rev (ps @ (R @ ''ctrlpos_plus_falloff_pma'' @ S) @ ss)"
      by (rule arg_cong)
    then show False unfolding ps ss by simp
  qed
qed

lemma front_not_in_rear:
  "\<not> sublist (starter_node_name cfg jog ''ctrlpos_plus_falloff_pma'')
               (starter_node_name cfg jog ''ctrlpos_minus_falloff_pma'')"
  using starter_node_name_rear [of cfg jog] front_not_in_rear_aux by metis

section \<open>The blend weight\<close>

lemma multi_attr_rear: "multi_attr n n = ''X''"
  by (simp add: multi_attr_def)

lemma multi_attr_front:
  "multi_attr (starter_node_name cfg jog ''ctrlpos_plus_falloff_pma'')
              (starter_node_name cfg jog ''ctrlpos_minus_falloff_pma'') = ''Y''"
  by (simp add: multi_attr_def front_not_in_rear)

lemma rotation_multiplier_eq:
  assumes "falloff c \<noteq> 0"
  shows "rotation_multiplier cfg jog c j
    = Some ((j - (position c - falloff c)) / falloff c, (j - (position c + falloff c)) / (- falloff c))"
  using assms
  by (simp add: rotation_multiplier_def falloff_side_def multi_attr_rear multi_attr_front
      connectAttr_def input_value_def plusMinusAverage_def multiplyDivide_def Let_def)

lemma side_switch_condition_eq:
  assumes "0 < falloff c"
  shows "side_switch_condition cfg jog c j = Some (1 - \<bar>j - position c\<bar> / falloff c)"
proof -
  have ne: "falloff c \<noteq> 0" using assms by simp
  show ?thesis
    unfolding side_switch_condition_def rotation_multiplier_eq [OF ne]
    using assms by (simp add: condition_def condition_test_def field_simps abs_if)
qed

text \<open>
  C3: for a control at position p with a falloff f above 0 and a joint at position j,
  the weight that \<^verbatim>\<open>side_switch_condition\<close> puts out is 1 at j = p, is 0 at
  j = p + f and at j = p - f, and is linear in the distance on both sides:
  1 - |j - p| / f, for every j.
\<close>

theorem side_select_weight_decay:
  assumes "0 < falloff c"
  shows "side_switch_condition cfg jog c (position c) = Some 1
       \<and> side_switch_condition cfg jog c (position c + falloff c) = Some 0
       \<and> side_switch_condition cfg jog c (position c - falloff c) = Some 0
       \<and> (\<forall>j. side_switch_condition cfg jog c j = Some (1 - \<bar>j - position c\<bar> / falloff c))"
  using assms by (simp add: side_switch_condition_eq)

theorem side_select_weight_decay_witness:
  "side_switch_condition module_config ''trunk_var_fk_01_ctrl_jnt_01_offset_grp'' \<lparr>position = 1 / 2, falloff = 1 / 5, rotate_ctrl = (0, 0, 0)\<rparr> (1 / 2) = Some 1
   \<and> side_switch_condition module_config ''trunk_var_fk_01_ctrl_jnt_01_offset_grp'' \<lparr>position = 1 / 2, falloff = 1 / 5, rotate_ctrl = (0, 0, 0)\<rparr> (7 / 10) = Some 0
   \<and> side_switch_condition module_config ''trunk_var_fk_01_ctrl_jnt_01_offset_grp'' \<lparr>position = 1 / 2, falloff = 1 / 5, rotate_ctrl = (0, 0, 0)\<rparr> (3 / 10) = Some 0
   \<and> side_switch_condition module_config ''trunk_var_fk_01_ctrl_jnt_01_offset_grp'' \<lparr>position = 1 / 2, falloff = 1 / 5, rotate_ctrl = (0, 0, 0)\<rparr> (3 / 5) = Some (1 / 2)"
  using side_select_weight_decay
    [where c = "\<lparr>position = 1 / 2, falloff = 1 / 5, rotate_ctrl = (0, 0, 0)\<rparr>"
       and cfg = module_config and jog = "''trunk_var_fk_01_ctrl_jnt_01_offset_grp''"]
  by simp

text \<open>
  C4, as stated: where the joint's position equals the control's, the test of
  \<^verbatim>\<open>side_switch_condition\<close> is false and \<^verbatim>\<open>colorIfFalseR\<close>, the front ratio, is
  forwarded. The source sets \<^verbatim>\<open>operation\<close> to 3 and notes it as greater than; the
  host's operation 3 is greater or equal. At position 1/2 for both, the test holds and
  \<^verbatim>\<open>colorIfTrueR\<close>, the rear ratio \<^verbatim>\<open>outputX\<close>, is forwarded. Both ratios are 1
  there.
\<close>

theorem side_switch_condition_tie:
  "condition_test 3 (position \<lparr>position = 1 / 2, falloff = 1 / 5, rotate_ctrl = (0, 0, 0)\<rparr>) (1 / 2)
   \<and> condition 3 (position \<lparr>position = 1 / 2, falloff = 1 / 5, rotate_ctrl = (0, 0, 0)\<rparr>) (1 / 2)
        ''outputX'' ''outputY'' = ''outputX''
   \<and> rotation_multiplier module_config ''trunk_var_fk_01_ctrl_jnt_01_offset_grp'' \<lparr>position = 1 / 2, falloff = 1 / 5, rotate_ctrl = (0, 0, 0)\<rparr> (1 / 2) = Some (1, 1)"
  by (simp add: condition_def condition_test_def rotation_multiplier_eq)

section \<open>The share of a control and the final gate\<close>

lemma final_multiplier_multi_eq:
  assumes "0 < falloff c" and "1 \<le> N"
  shows "\<exists>s n. side_switch_condition cfg jog c j = Some s \<and> numOfJointsEffected c N = Some n \<and> n \<noteq> 0
     \<and> final_multiplier_multi cfg jog c N j
        = Some (case rotate_ctrl c of (rx, ry, rz) \<Rightarrow>
                  (1 / n * (s * rx) * 6, 1 / n * (s * ry) * 6, 1 / n * (s * rz) * 6))"
proof -
  have n: "1 + max 0 (min 1 (falloff c * 2)) * (of_nat N - 1) \<noteq> (0::rat)"
    using numOfJointsEffected_ge_1 [OF assms(2), of c] by linarith
  obtain rx ry rz where r: "rotate_ctrl c = (rx, ry, rz)" by (cases "rotate_ctrl c")
  show ?thesis
    using n r
    by (simp add: final_multiplier_multi_def num_jnts_times_ctrl_rot_multi_def
        number_of_joints_division_multi_def control_rotation_by_rot_multi_def
        side_switch_condition_eq [OF assms(1)] numOfJointsEffected_eq
        multiplyDivide_def multiplyDivide3_def)
qed

text \<open>
  C1, as stated: the share is the weight times the control's rotation times
  1 / \<^verbatim>\<open>numOfJointsEffected\<close> times 2. The source notes the last node as a
  multiplication by 2 and sets its \<^verbatim>\<open>input2\<close> to 6. For a control at position 1/2
  with falloff 1/2 and rotation (3, 0, 0), over three joints, and a joint at 1/2, the
  weight is 1, \<^verbatim>\<open>numOfJointsEffected\<close> is 3, and the node puts out (6, 0, 0), where the
  factor 2 gives (2, 0, 0).
\<close>

theorem final_multiplier_multi_factor:
  "side_switch_condition module_config ''trunk_var_fk_01_ctrl_jnt_01_offset_grp'' \<lparr>position = 1 / 2, falloff = 1 / 2, rotate_ctrl = (3, 0, 0)\<rparr> (1 / 2) = Some 1
   \<and> numOfJointsEffected \<lparr>position = 1 / 2, falloff = 1 / 2, rotate_ctrl = (3, 0, 0)\<rparr> 3 = Some 3
   \<and> final_multiplier_multi module_config ''trunk_var_fk_01_ctrl_jnt_01_offset_grp'' \<lparr>position = 1 / 2, falloff = 1 / 2, rotate_ctrl = (3, 0, 0)\<rparr> 3 (1 / 2) = Some (6, 0, 0)
   \<and> spec_perControlShare 1 (3, 0, 0) 3 = (2, 0, 0)"
  by (simp add: final_multiplier_multi_def num_jnts_times_ctrl_rot_multi_def
        number_of_joints_division_multi_def control_rotation_by_rot_multi_def
        side_switch_condition_eq numOfJointsEffected_eq spec_perControlShare_def
        multiplyDivide_def multiplyDivide3_def)

text \<open>
  C5: for a control with a falloff above 0, over a selection of at least one joint, the
  network has a value for every joint position, and the rotation that
  \<^verbatim>\<open>final_condition\<close> drives onto the offset group is the output of
  \<^verbatim>\<open>final_multiplier_multi\<close> when the weight is above 0, and is 0 on all three
  channels when the weight is 0 or below.
\<close>

theorem final_condition_gate:
  assumes "0 < falloff c" and "1 \<le> N"
  shows "\<exists>sideSelect share.
           side_switch_condition cfg jog c j = Some sideSelect
         \<and> final_multiplier_multi cfg jog c N j = Some share
         \<and> final_condition cfg jog c N j = Some (if 0 < sideSelect then share else (0, 0, 0))"
proof -
  from final_multiplier_multi_eq [OF assms, where j = j and cfg = cfg and jog = jog]
  obtain s share where "side_switch_condition cfg jog c j = Some s"
    and "final_multiplier_multi cfg jog c N j = Some share" by blast
  then show ?thesis
    by (simp add: final_condition_def condition_def condition_test_def)
qed

theorem final_condition_gate_witness:
  "final_condition module_config ''trunk_var_fk_01_ctrl_jnt_01_offset_grp'' \<lparr>position = 1 / 2, falloff = 1 / 2, rotate_ctrl = (3, 0, 0)\<rparr> 3 (1 / 2) = Some (6, 0, 0)
   \<and> final_condition module_config ''trunk_var_fk_01_ctrl_jnt_01_offset_grp'' \<lparr>position = 1 / 2, falloff = 1 / 2, rotate_ctrl = (3, 0, 0)\<rparr> 3 2 = Some (0, 0, 0)"
  using final_condition_gate
    [where c = "\<lparr>position = 1 / 2, falloff = 1 / 2, rotate_ctrl = (3, 0, 0)\<rparr>" and N = 3
       and j = "1 / 2" and cfg = module_config and jog = "''trunk_var_fk_01_ctrl_jnt_01_offset_grp''"]
    final_condition_gate
    [where c = "\<lparr>position = 1 / 2, falloff = 1 / 2, rotate_ctrl = (3, 0, 0)\<rparr>" and N = 3
       and j = 2 and cfg = module_config and jog = "''trunk_var_fk_01_ctrl_jnt_01_offset_grp''"]
  by (simp add: final_condition_def final_multiplier_multi_def num_jnts_times_ctrl_rot_multi_def
        number_of_joints_division_multi_def control_rotation_by_rot_multi_def
        side_switch_condition_eq numOfJointsEffected_eq
        multiplyDivide_def multiplyDivide3_def condition_def condition_test_def)

section \<open>Joint position sampling: the division\<close>

lemma truediv_zero: "truediv a 0 = Inl ZeroDivisionError"
  by (simp add: truediv_def)

lemma joint_positions_zero_range:
  "vs \<noteq> [] \<Longrightarrow> build_variable_fk_joint_positions vs 0 = Inl ZeroDivisionError"
  by (cases vs) (simp_all add: truediv_def)

text \<open>
  C10: when \<^verbatim>\<open>max_v_range\<close> is not zero, the sampling loop raises nothing and gives
  every joint its \<^verbatim>\<open>parameterV\<close> divided by \<^verbatim>\<open>max_v_range\<close>, in selection order.
\<close>

theorem joint_positions_defined:
  assumes "max_v_range \<noteq> 0"
  shows "build_variable_fk_joint_positions vs max_v_range = Inr (map (\<lambda>v. v / max_v_range) vs)"
  using assms by (induction vs) (simp_all add: truediv_def)

theorem joint_positions_defined_witness:
  "build_variable_fk_joint_positions [0, 1, 2] 2 = Inr [0, 1 / 2, 1]"
  using joint_positions_defined [of 2 "[0, 1, 2]"] by simp

section \<open>The selection guards\<close>

lemma ls_selection_joint_all_joints:
  "\<not> list_ex (\<lambda>jnt. nodeType s jnt \<noteq> Some ''joint'') (ls_selection_joint s)"
  by (simp add: ls_selection_joint_def list_ex_iff)

lemma create_nurbs_surface_short:
  "length joints < 3 \<Longrightarrow>
   create_nurbs_surface cfg joints s
     = (Inl (RuntimeError ''Please select at least 3 input joints''), s)"
  by (simp add: create_nurbs_surface_def)

lemma create_nurbs_surface_non_joint:
  "\<not> length joints < 3 \<Longrightarrow> list_ex (\<lambda>jnt. nodeType s jnt \<noteq> Some ''joint'') joints \<Longrightarrow>
   create_nurbs_surface cfg joints s = (Inl (RuntimeError ''Select only joints''), s)"
  by (simp add: create_nurbs_surface_def)

lemma create_nurbs_surface_joints:
  "\<not> length joints < 3 \<Longrightarrow> \<not> list_ex (\<lambda>jnt. nodeType s jnt \<noteq> Some ''joint'') joints \<Longrightarrow>
   create_nurbs_surface cfg joints s
     = (Inr (name_object cfg ''surface'' ''__'' True),
        s\<lparr>journal := journal s @
           [Curve ''temp_variable_fk_curve'',
            Move 5 0 0 ''temp_variable_fk_curve'',
            Duplicate ''temp_variable_fk_curve'',
            Move (- 5) 0 0 ''temp_variable_fk_curve1'',
            Loft ''temp_variable_fk_curve'' ''temp_variable_fk_curve1''
              (name_object cfg ''surface'' ''__'' True),
            Delete [''temp_variable_fk_curve1'', ''temp_variable_fk_curve'']]\<rparr>)"
  by (simp add: create_nurbs_surface_def run_def Let_def)

text \<open>
  C6, as stated: an empty selection, fewer than three joints, or a selection that
  contains a node that is not a joint makes the build fail before it changes the scene.
  The last case fails: the selection query keeps the joints only, so with four joints and
  a mesh selected the build goes on and changes the scene.
\<close>

theorem build_variable_fk_surface_non_joint_selected:
  "list_ex (\<lambda>node. nodeType
        \<lparr>node_types = [(''j1'', ''joint''), (''j2'', ''joint''), (''j3'', ''joint''),
                       (''j4'', ''joint''), (''m'', ''mesh'')],
         selected = [''j1'', ''j2'', ''j3'', ''j4'', ''m''], journal = []\<rparr> node \<noteq> Some ''joint'')
      [''j1'', ''j2'', ''j3'', ''j4'', ''m'']
   \<and> fst (build_variable_fk_surface module_config
        \<lparr>node_types = [(''j1'', ''joint''), (''j2'', ''joint''), (''j3'', ''joint''),
                       (''j4'', ''joint''), (''m'', ''mesh'')],
         selected = [''j1'', ''j2'', ''j3'', ''j4'', ''m''], journal = []\<rparr>)
      = Inr ''surface_trunk_var_fk''
   \<and> journal (snd (build_variable_fk_surface module_config
        \<lparr>node_types = [(''j1'', ''joint''), (''j2'', ''joint''), (''j3'', ''joint''),
                       (''j4'', ''joint''), (''m'', ''mesh'')],
         selected = [''j1'', ''j2'', ''j3'', ''j4'', ''m''], journal = []\<rparr>)) \<noteq> []"
  by (simp add: build_variable_fk_surface_def create_nurbs_surface_def ls_selection_joint_def
      nodeType_def run_def name_object_def module_config_def Let_def)

text \<open>
  C6, amended: the build looks at the joints of the selection only. With no joint
  selected it raises \<^verbatim>\<open>Nothing selected\<close>, with one or two it raises
  \<^verbatim>\<open>Please select at least 3 input joints\<close>, in both cases with the scene unchanged;
  with three or more it creates the surface, whatever else is selected.
\<close>

theorem build_variable_fk_surface_guards:
  "build_variable_fk_surface cfg s =
     (if ls_selection_joint s = []
      then (Inl (RuntimeError ''Nothing selected''), s)
      else if length (ls_selection_joint s) < 3
      then (Inl (RuntimeError ''Please select at least 3 input joints''), s)
      else (Inr (name_object cfg ''surface'' ''__'' True),
            s\<lparr>journal := journal s @
               [Curve ''temp_variable_fk_curve'',
                Move 5 0 0 ''temp_variable_fk_curve'',
                Duplicate ''temp_variable_fk_curve'',
                Move (- 5) 0 0 ''temp_variable_fk_curve1'',
                Loft ''temp_variable_fk_curve'' ''temp_variable_fk_curve1''
                  (name_object cfg ''surface'' ''__'' True),
                Delete [''temp_variable_fk_curve1'', ''temp_variable_fk_curve''],
                Hide (name_object cfg ''surface'' ''__'' True)]\<rparr>))"
proof (cases "ls_selection_joint s = []")
  case True
  then show ?thesis by (simp add: build_variable_fk_surface_def)
next
  case ne: False
  show ?thesis
  proof (cases "length (ls_selection_joint s) < 3")
    case True
    with ne show ?thesis
      by (simp add: build_variable_fk_surface_def create_nurbs_surface_short)
  next
    case False
    with ne show ?thesis
      by (simp add: build_variable_fk_surface_def run_def
          create_nurbs_surface_joints [OF False ls_selection_joint_all_joints])
  qed
qed

end
